theory Spec2Isabelle
  imports Complex_Main
begin

section \<open>The price relay of \<^verbatim>\<open>src/backend/main.py\<close>\<close>

text \<open>
  The module relays records of an upstream market-data feed to an HTTP client as a
  sequence of server-sent events. The embedding follows the generator
  \<^verbatim>\<open>stream_price_data\<close> and the endpoint \<^verbatim>\<open>stream_prices\<close>.

  What is modelled and how:
  \<^item> an event is the dictionary handed to \<^verbatim>\<open>json.dumps\<close>; the framing
    \<^verbatim>\<open>data: ...\n\n\<close> and the rendering by \<^verbatim>\<open>str\<close> and
    \<^verbatim>\<open>isoformat\<close> are not modelled, so an event carries the values they render;
  \<^item> an upstream record is an object whose attributes the code probes with
    \<^verbatim>\<open>hasattr\<close> and \<^verbatim>\<open>getattr\<close>: an attribute is an option, \<open>None\<close> when
    the object has no such attribute (for the price and size fields also when its value
    is Python's \<^verbatim>\<open>None\<close>, which the code treats alike);
  \<^item> a Python \<^verbatim>\<open>float\<close> is the real number it denotes: rounding, infinities
    and NaN are not modelled;
  \<^item> an exception is a value: the functions return a sum whose left side is the exception;
  \<^item> \<^verbatim>\<open>datetime.now()\<close> reads a clock: the clock is a function from the number
    of readings made so far to the reading, and that number is passed along;
  \<^item> the upstream client is not part of the module: what it does in one session (the
    constructor fails, the subscription fails, or it yields records and then ends or
    raises) is an input of the model;
  \<^item> the consumer is taken to read every event: cancellation at a \<^verbatim>\<open>yield\<close> is
    not modelled;
  \<^item> the calls of \<^verbatim>\<open>print\<close> are left out.
\<close>

subsection \<open>Python values, strings and exceptions\<close>

datatype py_error =
    AttributeError string
  | OverflowError string
  | UpstreamError string

fun str_error :: "py_error \<Rightarrow> string" where
  "str_error (AttributeError m) = m"
| "str_error (OverflowError m) = m"
| "str_error (UpstreamError m) = m"

text \<open>
  \<^verbatim>\<open>str.lower\<close> on the ASCII letters: a byte from 65 (A) to 90 (Z) gets 32 added, which
  sets its bit 5; the other bytes are left as they are.
\<close>

fun lower_char :: "char \<Rightarrow> char" where
  "lower_char (Char b0 b1 b2 b3 b4 b5 b6 b7) =
     (let n = (of_char (Char b0 b1 b2 b3 b4 b5 b6 b7) :: nat)
      in if 65 \<le> n \<and> n \<le> 90 then Char b0 b1 b2 b3 b4 True b6 b7
         else Char b0 b1 b2 b3 b4 b5 b6 b7)"

definition lower :: "string \<Rightarrow> string" where
  "lower s = map lower_char s"

fun starts_with :: "string \<Rightarrow> string \<Rightarrow> bool" where
  "starts_with [] s = True"
| "starts_with (a # as) [] = False"
| "starts_with (a # as) (b # bs) = (a = b \<and> starts_with as bs)"

text \<open>\<^verbatim>\<open>needle in s\<close> on strings.\<close>

fun py_in :: "string \<Rightarrow> string \<Rightarrow> bool" where
  "py_in needle [] = (needle = [])"
| "py_in needle (c # cs) = (starts_with needle (c # cs) \<or> py_in needle cs)"

text \<open>
  \<^verbatim>\<open>str.strip()\<close>: the ASCII whitespace of \<^verbatim>\<open>str.isspace\<close> (tab to
  carriage return, the four separators 0x1c to 0x1f, and the space).
\<close>

definition is_space :: "char \<Rightarrow> bool" where
  "is_space c =
     (let n = (of_char c :: nat) in (9 \<le> n \<and> n \<le> 13) \<or> (28 \<le> n \<and> n \<le> 32))"

definition strip :: "string \<Rightarrow> string" where
  "strip s = rev (dropWhile is_space (rev (dropWhile is_space s)))"

text \<open>\<^verbatim>\<open>s.split(",")\<close>: the pieces between the commas, empty pieces included.\<close>

fun split_comma :: "string \<Rightarrow> string list" where
  "split_comma [] = [[]]"
| "split_comma (c # cs) =
     (if c = CHR '','' then [] # split_comma cs
      else (case split_comma cs of
              [] \<Rightarrow> [[c]]
            | w # ws \<Rightarrow> (c # w) # ws))"

subsection \<open>Upstream records\<close>

text \<open>A raw price is a Python number: an \<^verbatim>\<open>int\<close> or a \<^verbatim>\<open>float\<close>.\<close>

datatype num = PyInt int | PyFloat real

record level =
  bid_px :: "num option"
  ask_px :: "num option"
  bid_sz :: "int option"
  ask_sz :: "int option"

record header =
  hd_ts_event :: "int option"

text \<open>
  \<open>hd_attr\<close> is the attribute \<^verbatim>\<open>hd\<close>, \<open>None\<close> when the record has none;
  \<open>levels\<close> is \<open>None\<close> when the record has no such attribute or its value is
  \<^verbatim>\<open>None\<close>.
\<close>

record upstream_record =
  type_name :: string
  symbol :: "string option"
  instrument_id :: "int option"
  ts_event :: "int option"
  hd_attr :: "header option"
  levels :: "level list option"

subsection \<open>Events\<close>

type_synonym datetime = nat
type_synonym clock = "nat \<Rightarrow> datetime"

text \<open>The values that \<^verbatim>\<open>str(symbol)\<close> and \<^verbatim>\<open>str(timestamp)\<close> render.\<close>

datatype symbol_value = SymbolStr string | SymbolInt int

datatype timestamp_value = EventTime int | WallClock datetime

record tick =
  tick_symbol :: symbol_value
  tick_timestamp :: timestamp_value
  bid_price :: "real option"
  ask_price :: "real option"
  bid_size :: "int option"
  ask_size :: "int option"
  received_at :: datetime
  record_type :: string

text \<open>
  An error payload: the key \<^verbatim>\<open>error\<close>, the optional keys
  \<^verbatim>\<open>details\<close> and \<^verbatim>\<open>solutions\<close>, and \<^verbatim>\<open>timestamp\<close>.
\<close>

record error_data =
  error :: string
  details :: "string option"
  solutions :: "string list option"
  error_timestamp :: datetime

text \<open>
  \<open>Status symbols t\<close> is the payload with \<^verbatim>\<open>status\<close> "connected", the fixed
  message, the requested symbols and the timestamp; \<open>Test t\<close> is the payload
  \<^verbatim>\<open>{"test": "SSE connection working", "timestamp": t}\<close>.
\<close>

datatype event =
    Status "string list" datetime
  | Test datetime
  | Tick tick
  | Error error_data

subsection \<open>Decoding one level\<close>

text \<open>
  \<^verbatim>\<open>float(raw)\<close>: an \<^verbatim>\<open>int\<close> that rounds to \<open>2 ^ 1024\<close> or beyond raises
  OverflowError.
\<close>

definition py_float :: "num \<Rightarrow> py_error + real" where
  "py_float v =
     (case v of
        PyFloat x \<Rightarrow> Inr x
      | PyInt i \<Rightarrow>
          if 2 ^ 1024 - 2 ^ 970 \<le> \<bar>i\<bar>
          then Inl (OverflowError ''int too large to convert to float'')
          else Inr (real_of_int i))"

definition decode_price :: "num option \<Rightarrow> py_error + real option" where
  "decode_price raw =
     (case raw of
        None \<Rightarrow> Inr None
      | Some v \<Rightarrow>
          (case py_float v of
             Inl e \<Rightarrow> Inl e
           | Inr price_value \<Rightarrow>
               Inr (Some (if price_value > 1000000 then price_value / 1000000000
                          else price_value))))"

definition decode_size :: "int option \<Rightarrow> int option" where
  "decode_size sz =
     (case sz of
        None \<Rightarrow> None
      | Some n \<Rightarrow> if n \<noteq> 0 then Some n else None)"

text \<open>
  The four local variables \<^verbatim>\<open>bid_price\<close>, \<^verbatim>\<open>ask_price\<close>,
  \<^verbatim>\<open>bid_size\<close> and \<^verbatim>\<open>ask_size\<close>; all are \<open>None\<close> unless the record has a
  first level.
\<close>

record price_level =
  pl_bid_price :: "real option"
  pl_ask_price :: "real option"
  pl_bid_size :: "int option"
  pl_ask_size :: "int option"

definition no_level :: price_level where
  "no_level = \<lparr>pl_bid_price = None, pl_ask_price = None, pl_bid_size = None, pl_ask_size = None\<rparr>"

definition decode_level :: "level list option \<Rightarrow> py_error + price_level" where
  "decode_level lv =
     (case lv of
        None \<Rightarrow> Inr no_level
      | Some [] \<Rightarrow> Inr no_level
      | Some (l # ls) \<Rightarrow>
          (case decode_price (bid_px l) of
             Inl e \<Rightarrow> Inl e
           | Inr bp \<Rightarrow>
               (case decode_price (ask_px l) of
                  Inl e \<Rightarrow> Inl e
                | Inr ap \<Rightarrow>
                    Inr \<lparr>pl_bid_price = bp, pl_ask_price = ap,
                         pl_bid_size = decode_size (bid_sz l),
                         pl_ask_size = decode_size (ask_sz l)\<rparr>)))"

subsection \<open>One record\<close>

datatype record_kind = MappingUpdate | QuoteTrade | Unhandled

definition classify :: "upstream_record \<Rightarrow> record_kind" where
  "classify r =
     (if type_name r = ''SymbolMappingMsg'' then MappingUpdate
      else if type_name r \<in> set [''MBP1Msg'', ''MBPMsg'', ''TradeMsg''] then QuoteTrade
      else Unhandled)"

definition resolve_symbol :: "upstream_record \<Rightarrow> symbol_value" where
  "resolve_symbol r =
     (case symbol r of
        Some s \<Rightarrow> SymbolStr s
      | None \<Rightarrow>
          (case instrument_id r of
             Some i \<Rightarrow> SymbolInt i
           | None \<Rightarrow> SymbolStr ''UNKNOWN''))"

definition no_attribute :: "string \<Rightarrow> string \<Rightarrow> py_error" where
  "no_attribute tn a =
     AttributeError
       ([CHR 0x27] @ tn @ [CHR 0x27] @ '' object has no attribute '' @ [CHR 0x27] @ a @ [CHR 0x27])"

text \<open>
  \<^verbatim>\<open>getattr(record, 'ts_event', getattr(record.hd, 'ts_event', datetime.now()))\<close>:
  Python evaluates the arguments first, so \<^verbatim>\<open>record.hd\<close> is read, and the clock
  after it, whether or not the record has \<^verbatim>\<open>ts_event\<close>.
\<close>

definition resolve_timestamp ::
  "clock \<Rightarrow> nat \<Rightarrow> upstream_record \<Rightarrow> (py_error + timestamp_value) \<times> nat" where
  "resolve_timestamp clk k r =
     (case hd_attr r of
        None \<Rightarrow> (Inl (no_attribute (type_name r) ''hd''), k)
      | Some h \<Rightarrow>
          (let now = clk k;
               fallback = (case hd_ts_event h of Some t \<Rightarrow> EventTime t | None \<Rightarrow> WallClock now)
           in (Inr (case ts_event r of Some t \<Rightarrow> EventTime t | None \<Rightarrow> fallback), Suc k)))"

text \<open>The body of the branch for quote and trade records, up to the dictionary.\<close>

definition quote_trade_tick ::
  "clock \<Rightarrow> nat \<Rightarrow> upstream_record \<Rightarrow> (py_error + tick) \<times> nat" where
  "quote_trade_tick clk k r =
     (case resolve_timestamp clk k r of
        (Inl e, k') \<Rightarrow> (Inl e, k')
      | (Inr ts, k') \<Rightarrow>
          (case decode_level (levels r) of
             Inl e \<Rightarrow> (Inl e, k')
           | Inr pl \<Rightarrow>
               (Inr \<lparr>tick_symbol = resolve_symbol r, tick_timestamp = ts,
                     bid_price = pl_bid_price pl, ask_price = pl_ask_price pl,
                     bid_size = pl_bid_size pl, ask_size = pl_ask_size pl,
                     received_at = clk k', record_type = type_name r\<rparr>,
                Suc k')))"

definition record_error_event :: "clock \<Rightarrow> nat \<Rightarrow> py_error \<Rightarrow> event" where
  "record_error_event clk k e =
     Error \<lparr>error = ''Record processing error: '' @ str_error e, details = None,
            solutions = None, error_timestamp = clk k\<rparr>"

text \<open>The body of the loop with its handler: the events of one record.\<close>

definition process_record :: "clock \<Rightarrow> nat \<Rightarrow> upstream_record \<Rightarrow> event list \<times> nat" where
  "process_record clk k r =
     (case classify r of
        MappingUpdate \<Rightarrow> ([], k)
      | QuoteTrade \<Rightarrow>
          (case quote_trade_tick clk k r of
             (Inr t, k') \<Rightarrow> ([Tick t], k')
           | (Inl e, k') \<Rightarrow> ([record_error_event clk k' e], Suc k'))
      | Unhandled \<Rightarrow> ([], k))"

subsection \<open>The session\<close>

text \<open>How the iteration over the client ends: it is exhausted, or pulling raises.\<close>

datatype ending = StopAsyncIteration | IterationRaises py_error

datatype feed =
    ClientFails py_error
  | SubscribeFails py_error
  | Subscribed "upstream_record list" ending

definition iteration_error_event :: "clock \<Rightarrow> nat \<Rightarrow> py_error \<Rightarrow> event" where
  "iteration_error_event clk k e =
     Error \<lparr>error = ''Iteration error: '' @ str_error e, details = None,
            solutions = None, error_timestamp = clk k\<rparr>"

fun stream_loop :: "clock \<Rightarrow> nat \<Rightarrow> upstream_record list \<Rightarrow> ending \<Rightarrow> event list" where
  "stream_loop clk k [] StopAsyncIteration = []"
| "stream_loop clk k [] (IterationRaises e) = [iteration_error_event clk k e]"
| "stream_loop clk k (r # rs) fin =
     (case process_record clk k r of
        (evs, k') \<Rightarrow> evs @ stream_loop clk k' rs fin)"

text \<open>The outer handler.\<close>

definition connection_error_event :: "clock \<Rightarrow> nat \<Rightarrow> py_error \<Rightarrow> event" where
  "connection_error_event clk k e =
     (let error_msg = str_error e in
      if py_in ''authentication failed'' (lower error_msg) \<or> py_in ''cram'' (lower error_msg)
      then Error \<lparr>error = ''DataBento Authentication Failed'',
                  details = Some ''Invalid API key or insufficient permissions for live data'',
                  solutions = Some [''Verify your API key is correct'',
                                    ''Ensure your key has live data access permissions'',
                                    ''Check if your key is for live data (not just historical)'',
                                    ''Contact DataBento support if key appears valid''],
                  error_timestamp = clk k\<rparr>
      else if py_in ''nonetype'' (lower error_msg) \<or> py_in ''await'' (lower error_msg)
      then Error \<lparr>error = ''DataBento Client Initialization Failed'',
                  details = Some ''Client object is None, likely due to subscription failure'',
                  solutions = Some [''Check if your API key has live data permissions'',
                                    ''Verify the dataset and schema are correct'',
                                    ''Ensure symbols are valid for the dataset'',
                                    ''Check DataBento service status''],
                  error_timestamp = clk k\<rparr>
      else Error \<lparr>error = ''DataBento API error: '' @ error_msg, details = None,
                  solutions = None, error_timestamp = clk k\<rparr>)"

definition key_error_event :: "clock \<Rightarrow> nat \<Rightarrow> event" where
  "key_error_event clk k =
     Error \<lparr>error = ''DATABENTO_API_KEY environment variable not set'',
            details = Some ''Please set DATABENTO_API_KEY environment variable to use the live data stream'',
            solutions = None, error_timestamp = clk k\<rparr>"

text \<open>
  \<open>api_key\<close> is the module's \<^verbatim>\<open>DATABENTO_API_KEY\<close>, the result of
  \<^verbatim>\<open>os.getenv\<close>: \<open>None\<close> when the variable is not set.
\<close>

definition stream_price_data ::
  "string option \<Rightarrow> clock \<Rightarrow> feed \<Rightarrow> string list \<Rightarrow> event list" where
  "stream_price_data api_key clk fd symbols =
     (if api_key = None \<or> api_key = Some [] then [key_error_event clk 0]
      else (case fd of
              ClientFails e \<Rightarrow> [connection_error_event clk 0 e]
            | SubscribeFails e \<Rightarrow> [connection_error_event clk 0 e]
            | Subscribed rs fin \<Rightarrow>
                Status symbols (clk 0) # Test (clk 1) # stream_loop clk 2 rs fin))"

subsection \<open>The endpoint\<close>

datatype http_error = HTTPException nat string

text \<open>
  \<^verbatim>\<open>stream_prices\<close>: the right side is the body of the streaming response, the
  events of the session created for the symbol list.
\<close>

definition symbol_list :: "string \<Rightarrow> string list" where
  "symbol_list symbols = map strip (split_comma symbols)"

definition stream_prices ::
  "string option \<Rightarrow> clock \<Rightarrow> feed \<Rightarrow> string \<Rightarrow> http_error + event list" where
  "stream_prices api_key clk fd symbols =
     (if symbol_list symbols = [] then Inl (HTTPException 400 ''At least one symbol is required'')
      else Inr (stream_price_data api_key clk fd (symbol_list symbols)))"

subsection \<open>Predicates on events\<close>

fun tick_or_error :: "event \<Rightarrow> bool" where
  "tick_or_error (Tick t) = True"
| "tick_or_error (Error e) = True"
| "tick_or_error (Status s t) = False"
| "tick_or_error (Test t) = False"

fun nonzero_sizes :: "event \<Rightarrow> bool" where
  "nonzero_sizes (Tick t) = (bid_size t \<noteq> Some 0 \<and> ask_size t \<noteq> Some 0)"
| "nonzero_sizes (Error e) = True"
| "nonzero_sizes (Status s t) = True"
| "nonzero_sizes (Test t) = True"

subsection \<open>Sample inputs\<close>

definition sample_clock :: clock where
  "sample_clock n = 1700000000 + n"

definition sample_level :: level where
  "sample_level =
     \<lparr>bid_px = Some (PyInt 4500250000000), ask_px = Some (PyFloat 102.5),
      bid_sz = Some 7, ask_sz = Some 0\<rparr>"

definition sample_header :: header where
  "sample_header = \<lparr>hd_ts_event = Some 1700000000123456789\<rparr>"

definition quote_record :: upstream_record where
  "quote_record =
     \<lparr>type_name = ''MBP1Msg'', symbol = None, instrument_id = Some 42, ts_event = None,
      hd_attr = Some sample_header, levels = Some [sample_level]\<rparr>"


definition mapping_record :: upstream_record where
  "mapping_record =
     \<lparr>type_name = ''SymbolMappingMsg'', symbol = None, instrument_id = Some 42,
      ts_event = Some 1700000000123456789, hd_attr = Some sample_header, levels = None\<rparr>"

definition headerless_quote :: upstream_record where
  "headerless_quote =
     \<lparr>type_name = ''MBP1Msg'', symbol = None, instrument_id = Some 42,
      ts_event = Some 1700000000123456789, hd_attr = None, levels = Some [sample_level]\<rparr>"


section \<open>Properties\<close>

subsection \<open>Auxiliary facts\<close>

text \<open>The substring test is the one of Python's \<^verbatim>\<open>in\<close>.\<close>

lemma starts_with_iff: "starts_with n s \<longleftrightarrow> (\<exists>q. s = n @ q)"
  by (induction n s rule: starts_with.induct) auto

lemma py_in_iff: "py_in n s \<longleftrightarrow> (\<exists>p q. s = p @ n @ q)"
proof (induction s)
  case Nil
  show ?case by auto
next
  case (Cons c cs)
  show ?case
  proof
    assume "py_in n (c # cs)"
    then consider "starts_with n (c # cs)" | "py_in n cs" by auto
    then show "\<exists>p q. c # cs = p @ n @ q"
    proof cases
      case 1
      then obtain q where "c # cs = n @ q" by (auto simp: starts_with_iff)
      then have "c # cs = [] @ n @ q" by simp
      then show ?thesis by blast
    next
      case 2
      with Cons.IH obtain p q where "cs = p @ n @ q" by auto
      then have "c # cs = (c # p) @ n @ q" by simp
      then show ?thesis by blast
    qed
  next
    assume "\<exists>p q. c # cs = p @ n @ q"
    then obtain p q where e: "c # cs = p @ n @ q" by auto
    show "py_in n (c # cs)"
    proof (cases p)
      case Nil
      with e have "starts_with n (c # cs)" by (auto simp: starts_with_iff)
      then show ?thesis by simp
    next
      case (Cons a p')
      with e have "cs = p' @ n @ q" by simp
      with Cons.IH have "py_in n cs" by blast
      then show ?thesis by simp
    qed
  qed
qed

text \<open>A 64-bit integer, the width of the feed's fixed-point prices, converts to a float.\<close>

lemma py_float_int_ok: "\<bar>i\<bar> < 2 ^ 64 \<Longrightarrow> py_float (PyInt i) = Inr (real_of_int i)"
proof -
  assume a: "\<bar>i\<bar> < 2 ^ 64"
  have "(2::int) ^ 64 \<le> 2 ^ 1024 - 2 ^ 970" by simp
  with a show ?thesis by (simp add: py_float_def)
qed

text \<open>The tick of a record that has a header and whose level decodes.\<close>

lemma quote_trade_tick_ok:
  "hd_attr r = Some h \<Longrightarrow> decode_level (levels r) = Inr pl \<Longrightarrow>
   quote_trade_tick clk k r =
     (Inr \<lparr>tick_symbol = resolve_symbol r,
           tick_timestamp =
             (case ts_event r of
                Some t \<Rightarrow> EventTime t
              | None \<Rightarrow> (case hd_ts_event h of Some t \<Rightarrow> EventTime t | None \<Rightarrow> WallClock (clk k))),
           bid_price = pl_bid_price pl, ask_price = pl_ask_price pl,
           bid_size = pl_bid_size pl, ask_size = pl_ask_size pl,
           received_at = clk (Suc k), record_type = type_name r\<rparr>,
      Suc (Suc k))"
  by (simp add: quote_trade_tick_def resolve_timestamp_def Let_def)

lemma quote_trade_tick_no_header:
  "hd_attr r = None \<Longrightarrow>
   quote_trade_tick clk k r = (Inl (no_attribute (type_name r) ''hd''), k)"
  by (simp add: quote_trade_tick_def resolve_timestamp_def)

text \<open>The loop emits ticks and errors only.\<close>

lemma process_record_kinds: "list_all tick_or_error (fst (process_record clk k r))"
  by (simp add: process_record_def record_error_event_def
           split: record_kind.splits prod.splits sum.splits)

lemma stream_loop_kinds: "list_all tick_or_error (stream_loop clk k rs fin)"
proof (induction rs arbitrary: k)
  case Nil
  show ?case by (cases fin) (simp_all add: iteration_error_event_def)
next
  case (Cons r rs)
  obtain evs k' where p: "process_record clk k r = (evs, k')"
    by (cases "process_record clk k r")
  have "list_all tick_or_error evs"
    using process_record_kinds [of clk k r] p by simp
  with Cons.IH [of k'] p show ?case by simp
qed

text \<open>
  A failing iteration adds one event to what the records before it produced.
\<close>

lemma stream_loop_raises:
  "\<exists>k'. stream_loop clk k rs (IterationRaises e) =
         stream_loop clk k rs StopAsyncIteration @ [iteration_error_event clk k' e]"
proof (induction rs arbitrary: k)
  case Nil
  show ?case by auto
next
  case (Cons r rs)
  obtain evs k' where p: "process_record clk k r = (evs, k')"
    by (cases "process_record clk k r")
  from Cons.IH [of k'] obtain k'' where
    "stream_loop clk k' rs (IterationRaises e) =
     stream_loop clk k' rs StopAsyncIteration @ [iteration_error_event clk k'' e]" ..
  with p show ?case by auto
qed

text \<open>
  The events of a longer sequence of records extend those of a shorter one: what the
  session has emitted after some records does not depend on what the feed does later.
\<close>

lemma stream_loop_append:
  "\<exists>k'. stream_loop clk k (rs @ rs') fin =
         stream_loop clk k rs StopAsyncIteration @ stream_loop clk k' rs' fin"
proof (induction rs arbitrary: k)
  case Nil
  have "stream_loop clk k ([] @ rs') fin =
        stream_loop clk k [] StopAsyncIteration @ stream_loop clk k rs' fin"
    by simp
  then show ?case ..
next
  case (Cons r rs)
  obtain evs k1 where p: "process_record clk k r = (evs, k1)"
    by (cases "process_record clk k r")
  from Cons.IH [of k1] obtain k' where
    "stream_loop clk k1 (rs @ rs') fin =
     stream_loop clk k1 rs StopAsyncIteration @ stream_loop clk k' rs' fin" ..
  with p have "stream_loop clk k ((r # rs) @ rs') fin =
     stream_loop clk k (r # rs) StopAsyncIteration @ stream_loop clk k' rs' fin"
    by simp
  then show ?case ..
qed

text \<open>
  The two ways in which a quote or trade record raises: it has no header, or one of its
  prices is an integer too large for a float.
\<close>

lemma quote_trade_tick_raises_iff:
  "(\<exists>e k'. quote_trade_tick clk k r = (Inl e, k')) \<longleftrightarrow>
   hd_attr r = None \<or> (\<exists>e. decode_level (levels r) = Inl e)"
  by (cases "hd_attr r"; cases "decode_level (levels r)")
     (simp_all add: quote_trade_tick_def resolve_timestamp_def)

lemma decode_price_raises_iff:
  "(\<exists>e. decode_price raw = Inl e) \<longleftrightarrow>
   (\<exists>i. raw = Some (PyInt i) \<and> 2 ^ 1024 - 2 ^ 970 \<le> \<bar>i\<bar>)"
  by (auto simp: decode_price_def py_float_def
           split: option.splits num.splits sum.splits if_splits)

text \<open>\<^verbatim>\<open>split\<close> returns at least one piece, so the symbol list is never empty.\<close>

lemma split_comma_nonempty: "split_comma s \<noteq> []"
  by (induction s) (auto split: list.splits)

lemma symbol_list_nonempty: "symbol_list s \<noteq> []"
  by (simp add: symbol_list_def split_comma_nonempty)

subsection \<open>Price decoding\<close>

lemma sample_level_decoded:
  "decode_level (Some [sample_level]) =
     Inr \<lparr>pl_bid_price = Some 4500.25, pl_ask_price = Some 102.5,
          pl_bid_size = Some 7, pl_ask_size = None\<rparr>"
  by (simp add: decode_level_def sample_level_def decode_price_def py_float_def decode_size_def)



subsection \<open>Event timestamp\<close>





subsection \<open>Failures of the iteration and of the set-up\<close>

text \<open>The tick of the sample quote record, at any clock count.\<close>

lemma quote_record_tick_at:
  "process_record sample_clock k quote_record =
     ([Tick \<lparr>tick_symbol = SymbolInt 42, tick_timestamp = EventTime 1700000000123456789,
             bid_price = Some 4500.25, ask_price = Some 102.5,
             bid_size = Some 7, ask_size = None,
             received_at = 1700000001 + k, record_type = ''MBP1Msg''\<rparr>], Suc (Suc k))"
proof -
  have "decode_level (levels quote_record) =
     Inr \<lparr>pl_bid_price = Some 4500.25, pl_ask_price = Some 102.5,
          pl_bid_size = Some 7, pl_ask_size = None\<rparr>"
    by (simp add: quote_record_def sample_level_decoded)
  moreover have "hd_attr quote_record = Some sample_header"
    by (simp add: quote_record_def)
  ultimately have "quote_trade_tick sample_clock k quote_record =
     (Inr \<lparr>tick_symbol = SymbolInt 42, tick_timestamp = EventTime 1700000000123456789,
             bid_price = Some 4500.25, ask_price = Some 102.5,
             bid_size = Some 7, ask_size = None,
             received_at = 1700000001 + k, record_type = ''MBP1Msg''\<rparr>, Suc (Suc k))"
    by (simp add: quote_trade_tick_ok resolve_symbol_def quote_record_def sample_header_def
          sample_clock_def)
  then show ?thesis
    by (simp add: process_record_def classify_def quote_record_def)
qed

text \<open>
  C3 (as stated). The claim says that an iteration failure whose message contains
  "authentication failed" is reported as the authentication error with its remediation
  steps. The handler around the loop catches every iteration failure and reports it with
  the text "Iteration error: ..." and no remediation steps; the classification by message
  is in the outer handler, which only the failures of the client's construction and of
  the subscription reach.
\<close>

theorem iteration_auth_failure_counterexample:
  "py_in ''authentication failed'' (lower ''User authentication failed'')
   \<and> stream_price_data (Some ''db-key'') sample_clock
        (Subscribed [] (IterationRaises (UpstreamError ''User authentication failed'')))
        [''ES.FUT'', ''NQ.FUT'']
      = [Status [''ES.FUT'', ''NQ.FUT''] 1700000000, Test 1700000001,
         Error \<lparr>error = ''Iteration error: User authentication failed'', details = None,
                solutions = None, error_timestamp = 1700000002\<rparr>]"
  by (simp add: stream_price_data_def lower_def iteration_error_event_def sample_clock_def)

text \<open>
  C3 (amended). After a successful subscription, an iteration failure with any message
  adds exactly one event to the events of the records pulled before it: an error event
  with the text "Iteration error: " followed by the message, without details and without
  remediation steps. It is the last event of the session.
\<close>

theorem iteration_failure_event:
  "api_key \<noteq> None \<Longrightarrow> api_key \<noteq> Some [] \<Longrightarrow>
   \<exists>k'. stream_price_data api_key clk (Subscribed rs (IterationRaises e)) symbols =
          Status symbols (clk 0) # Test (clk 1) # stream_loop clk 2 rs StopAsyncIteration
          @ [Error \<lparr>error = ''Iteration error: '' @ str_error e, details = None,
                    solutions = None, error_timestamp = clk k'\<rparr>]"
proof -
  assume k: "api_key \<noteq> None" "api_key \<noteq> Some []"
  from stream_loop_raises [of clk 2 rs e] obtain k' where
    "stream_loop clk 2 rs (IterationRaises e) =
     stream_loop clk 2 rs StopAsyncIteration @ [iteration_error_event clk k' e]" ..
  with k have "stream_price_data api_key clk (Subscribed rs (IterationRaises e)) symbols =
          Status symbols (clk 0) # Test (clk 1) # stream_loop clk 2 rs StopAsyncIteration
          @ [Error \<lparr>error = ''Iteration error: '' @ str_error e, details = None,
                    solutions = None, error_timestamp = clk k'\<rparr>]"
    by (simp add: stream_price_data_def iteration_error_event_def)
  then show ?thesis ..
qed

theorem iteration_failure_event_witness:
  "Some ''db-key'' \<noteq> None \<and> Some ''db-key'' \<noteq> Some []
   \<and> stream_loop sample_clock 2 [quote_record] StopAsyncIteration =
       [Tick \<lparr>tick_symbol = SymbolInt 42, tick_timestamp = EventTime 1700000000123456789,
               bid_price = Some 4500.25, ask_price = Some 102.5,
               bid_size = Some 7, ask_size = None,
               received_at = 1700000003, record_type = ''MBP1Msg''\<rparr>]
   \<and> (\<exists>k'. stream_price_data (Some ''db-key'') sample_clock
        (Subscribed [quote_record] (IterationRaises (UpstreamError ''connection reset'')))
        [''ES.FUT'']
      = [Status [''ES.FUT''] 1700000000, Test 1700000001,
         Tick \<lparr>tick_symbol = SymbolInt 42, tick_timestamp = EventTime 1700000000123456789,
               bid_price = Some 4500.25, ask_price = Some 102.5,
               bid_size = Some 7, ask_size = None,
               received_at = 1700000003, record_type = ''MBP1Msg''\<rparr>,
         Error \<lparr>error = ''Iteration error: connection reset'', details = None,
                solutions = None, error_timestamp = 1700000000 + k'\<rparr>])"
proof -
  have a: "Some ''db-key'' \<noteq> None" and b: "Some ''db-key'' \<noteq> Some []" by simp_all
  have c: "stream_loop sample_clock 2 [quote_record] StopAsyncIteration =
       [Tick \<lparr>tick_symbol = SymbolInt 42, tick_timestamp = EventTime 1700000000123456789,
               bid_price = Some 4500.25, ask_price = Some 102.5,
               bid_size = Some 7, ask_size = None,
               received_at = 1700000003, record_type = ''MBP1Msg''\<rparr>]"
    by (simp add: quote_record_tick_at)
  from iteration_failure_event [OF a b, of sample_clock "[quote_record]"
         "UpstreamError ''connection reset''" "[''ES.FUT'']"] c
  show ?thesis by (simp add: sample_clock_def)
qed

text \<open>
  C4 (as stated). The claim covers the placeholder credential "your-api-key-here". The
  generator tests \<^verbatim>\<open>not DATABENTO_API_KEY\<close> only, so the placeholder passes and the
  connection is attempted with it: the session reports what the upstream does (here a
  rejected subscription, reported as the authentication error) or, if the upstream
  accepts, emits the status and test events.
\<close>

theorem placeholder_key_counterexample:
  "stream_price_data (Some ''your-api-key-here'') sample_clock
      (SubscribeFails (UpstreamError ''User authentication failed: invalid API key''))
      [''ES.FUT'']
    = [Error \<lparr>error = ''DataBento Authentication Failed'',
              details = Some ''Invalid API key or insufficient permissions for live data'',
              solutions = Some [''Verify your API key is correct'',
                                ''Ensure your key has live data access permissions'',
                                ''Check if your key is for live data (not just historical)'',
                                ''Contact DataBento support if key appears valid''],
              error_timestamp = 1700000000\<rparr>]
   \<and> stream_price_data (Some ''your-api-key-here'') sample_clock
      (Subscribed [] StopAsyncIteration) [''ES.FUT'']
    = [Status [''ES.FUT''] 1700000000, Test 1700000001]"
  by (simp add: stream_price_data_def connection_error_event_def lower_def sample_clock_def)

text \<open>
  C4 (amended). A session started with a missing credential (the variable is not set, or
  is the empty string) emits exactly one event, the error event "DATABENTO_API_KEY
  environment variable not set", whatever the upstream would do: no connection is
  attempted and there is no status, test or tick event.
\<close>

theorem missing_key_single_error:
  "api_key = None \<or> api_key = Some [] \<Longrightarrow>
   stream_price_data api_key clk fd symbols =
     [Error \<lparr>error = ''DATABENTO_API_KEY environment variable not set'',
             details = Some ''Please set DATABENTO_API_KEY environment variable to use the live data stream'',
             solutions = None, error_timestamp = clk 0\<rparr>]"
  by (auto simp: stream_price_data_def key_error_event_def)

theorem missing_key_single_error_witness:
  "stream_price_data None sample_clock (Subscribed [quote_record] StopAsyncIteration) [''ES.FUT''] =
     [Error \<lparr>error = ''DATABENTO_API_KEY environment variable not set'',
             details = Some ''Please set DATABENTO_API_KEY environment variable to use the live data stream'',
             solutions = None, error_timestamp = 1700000000\<rparr>]
   \<and> stream_price_data (Some []) sample_clock (ClientFails (UpstreamError ''invalid key'')) [''ES.FUT''] =
     [Error \<lparr>error = ''DATABENTO_API_KEY environment variable not set'',
             details = Some ''Please set DATABENTO_API_KEY environment variable to use the live data stream'',
             solutions = None, error_timestamp = 1700000000\<rparr>]"
  using missing_key_single_error [of None sample_clock "Subscribed [quote_record] StopAsyncIteration" "[''ES.FUT'']"]
        missing_key_single_error [of "Some []" sample_clock "ClientFails (UpstreamError ''invalid key'')" "[''ES.FUT'']"]
  by (simp add: sample_clock_def)

subsection \<open>Records without a level, and records that are not quotes or trades\<close>




text \<open>
  C6. A record classified as a mapping update or as unhandled yields no event, so no
  tick, and the loop goes on with the next record.
\<close>

theorem non_quote_records_skipped:
  "classify r = MappingUpdate \<or> classify r = Unhandled \<Longrightarrow>
   process_record clk k r = ([], k)
   \<and> stream_loop clk k (r # rs) fin = stream_loop clk k rs fin"
  by (auto simp: process_record_def)

theorem non_quote_records_skipped_witness:
  "classify mapping_record = MappingUpdate
   \<and> classify (mapping_record\<lparr>type_name := ''StatMsg''\<rparr>) = Unhandled
   \<and> process_record sample_clock 2 mapping_record = ([], 2)
   \<and> process_record sample_clock 2 (mapping_record\<lparr>type_name := ''StatMsg''\<rparr>) = ([], 2)
   \<and> stream_loop sample_clock 2
        [mapping_record, mapping_record\<lparr>type_name := ''StatMsg''\<rparr>, quote_record]
        StopAsyncIteration
      = [Tick \<lparr>tick_symbol = SymbolInt 42, tick_timestamp = EventTime 1700000000123456789,
              bid_price = Some 4500.25, ask_price = Some 102.5,
              bid_size = Some 7, ask_size = None,
              received_at = 1700000003, record_type = ''MBP1Msg''\<rparr>]"
proof -
  have a: "classify mapping_record = MappingUpdate"
    by (simp add: classify_def mapping_record_def)
  have b: "classify (mapping_record\<lparr>type_name := ''StatMsg''\<rparr>) = Unhandled"
    by (simp add: classify_def)
  have c: "stream_loop sample_clock 2 [quote_record] StopAsyncIteration
      = [Tick \<lparr>tick_symbol = SymbolInt 42, tick_timestamp = EventTime 1700000000123456789,
              bid_price = Some 4500.25, ask_price = Some 102.5,
              bid_size = Some 7, ask_size = None,
              received_at = 1700000003, record_type = ''MBP1Msg''\<rparr>]"
    by (simp add: quote_record_tick_at)
  from a have a': "classify mapping_record = MappingUpdate \<or> classify mapping_record = Unhandled" ..
  from b have b': "classify (mapping_record\<lparr>type_name := ''StatMsg''\<rparr>) = MappingUpdate
      \<or> classify (mapping_record\<lparr>type_name := ''StatMsg''\<rparr>) = Unhandled" ..
  from non_quote_records_skipped [OF a', of sample_clock 2
         "[mapping_record\<lparr>type_name := ''StatMsg''\<rparr>, quote_record]" StopAsyncIteration]
       non_quote_records_skipped [OF b', of sample_clock 2 "[quote_record]" StopAsyncIteration]
       a b c
  show ?thesis by simp
qed

subsection \<open>The order of the events of a session\<close>

text \<open>
  C7. When the credential is present and the subscription succeeds, the first event is
  the status event with the requested symbols, the second is the test event, and every
  event after them is a tick or an error: there is one status and one test event, in
  this order, before anything else.
\<close>

theorem status_then_test_first:
  "api_key \<noteq> None \<Longrightarrow> api_key \<noteq> Some [] \<Longrightarrow>
   stream_price_data api_key clk (Subscribed rs fin) symbols =
     Status symbols (clk 0) # Test (clk 1) # stream_loop clk 2 rs fin
   \<and> list_all tick_or_error (stream_loop clk 2 rs fin)"
  by (simp add: stream_price_data_def stream_loop_kinds)

theorem status_then_test_first_witness:
  "Some ''db-key'' \<noteq> None \<and> Some ''db-key'' \<noteq> Some []
   \<and> stream_price_data (Some ''db-key'') sample_clock
        (Subscribed [mapping_record, quote_record] StopAsyncIteration) [''ES.FUT'', ''NQ.FUT'']
     = [Status [''ES.FUT'', ''NQ.FUT''] 1700000000, Test 1700000001,
        Tick \<lparr>tick_symbol = SymbolInt 42, tick_timestamp = EventTime 1700000000123456789,
              bid_price = Some 4500.25, ask_price = Some 102.5,
              bid_size = Some 7, ask_size = None,
              received_at = 1700000003, record_type = ''MBP1Msg''\<rparr>]"
proof -
  have a: "Some ''db-key'' \<noteq> None" and b: "Some ''db-key'' \<noteq> Some []" by simp_all
  have m: "process_record sample_clock 2 mapping_record = ([], 2)"
    by (simp add: process_record_def classify_def mapping_record_def)
  have c: "stream_loop sample_clock 2 [mapping_record, quote_record] StopAsyncIteration
      = [Tick \<lparr>tick_symbol = SymbolInt 42, tick_timestamp = EventTime 1700000000123456789,
              bid_price = Some 4500.25, ask_price = Some 102.5,
              bid_size = Some 7, ask_size = None,
              received_at = 1700000003, record_type = ''MBP1Msg''\<rparr>]"
    by (simp add: m quote_record_tick_at)
  from status_then_test_first [OF a b, of sample_clock "[mapping_record, quote_record]"
         StopAsyncIteration "[''ES.FUT'', ''NQ.FUT'']"] c
  show ?thesis by (simp add: sample_clock_def)
qed

subsection \<open>A record that fails\<close>

text \<open>
  C8. When processing a quote or trade record raises the exception \<open>e\<close>, the record
  yields exactly one event, the error event "Record processing error: " followed by the
  message of \<open>e\<close>, and the loop goes on with the records after it: a later record
  that yields a tick still yields it.
\<close>

theorem record_failure_continues:
  "classify r = QuoteTrade \<Longrightarrow> quote_trade_tick clk k r = (Inl e, k') \<Longrightarrow>
   process_record clk k r =
     ([Error \<lparr>error = ''Record processing error: '' @ str_error e, details = None,
              solutions = None, error_timestamp = clk k'\<rparr>], Suc k')
   \<and> stream_loop clk k (r # rs) fin =
       Error \<lparr>error = ''Record processing error: '' @ str_error e, details = None,
              solutions = None, error_timestamp = clk k'\<rparr>
       # stream_loop clk (Suc k') rs fin
   \<and> (\<forall>r2 t k2. process_record clk (Suc k') r2 = ([Tick t], k2) \<longrightarrow>
         stream_loop clk k (r # r2 # rs) fin =
           Error \<lparr>error = ''Record processing error: '' @ str_error e, details = None,
                  solutions = None, error_timestamp = clk k'\<rparr>
           # Tick t # stream_loop clk k2 rs fin)"
  by (simp add: process_record_def record_error_event_def)

text \<open>A quote whose ask price is too large for a float.\<close>

lemma overflow_quote_raises:
  "quote_trade_tick sample_clock 2
     (quote_record\<lparr>levels := Some [sample_level\<lparr>ask_px := Some (PyInt (2 ^ 1024))\<rparr>]\<rparr>)
   = (Inl (OverflowError ''int too large to convert to float''), 3)"
  by (simp add: quote_trade_tick_def resolve_timestamp_def quote_record_def decode_level_def
        sample_level_def decode_price_def py_float_def)

theorem record_failure_continues_witness:
  "classify headerless_quote = QuoteTrade
   \<and> quote_trade_tick sample_clock 2 headerless_quote = (Inl (no_attribute ''MBP1Msg'' ''hd''), 2)
   \<and> stream_loop sample_clock 2 [headerless_quote, quote_record] StopAsyncIteration =
       [Error \<lparr>error = ''Record processing error: '' @ [CHR 0x27] @ ''MBP1Msg'' @ [CHR 0x27]
                        @ '' object has no attribute '' @ [CHR 0x27] @ ''hd'' @ [CHR 0x27],
               details = None, solutions = None, error_timestamp = 1700000002\<rparr>,
        Tick \<lparr>tick_symbol = SymbolInt 42, tick_timestamp = EventTime 1700000000123456789,
              bid_price = Some 4500.25, ask_price = Some 102.5,
              bid_size = Some 7, ask_size = None,
              received_at = 1700000004, record_type = ''MBP1Msg''\<rparr>]
   \<and> stream_loop sample_clock 2
        [quote_record\<lparr>levels := Some [sample_level\<lparr>ask_px := Some (PyInt (2 ^ 1024))\<rparr>]\<rparr>,
         quote_record] StopAsyncIteration =
       [Error \<lparr>error = ''Record processing error: int too large to convert to float'',
               details = None, solutions = None, error_timestamp = 1700000003\<rparr>,
        Tick \<lparr>tick_symbol = SymbolInt 42, tick_timestamp = EventTime 1700000000123456789,
              bid_price = Some 4500.25, ask_price = Some 102.5,
              bid_size = Some 7, ask_size = None,
              received_at = 1700000005, record_type = ''MBP1Msg''\<rparr>]"
proof -
  have a: "classify headerless_quote = QuoteTrade"
    by (simp add: classify_def headerless_quote_def)
  have b: "quote_trade_tick sample_clock 2 headerless_quote = (Inl (no_attribute ''MBP1Msg'' ''hd''), 2)"
    by (simp add: quote_trade_tick_no_header headerless_quote_def)
  have c: "classify (quote_record\<lparr>levels := Some [sample_level\<lparr>ask_px := Some (PyInt (2 ^ 1024))\<rparr>]\<rparr>)
      = QuoteTrade"
    by (simp add: classify_def quote_record_def)
  from record_failure_continues [OF a b, of "[quote_record]" StopAsyncIteration]
       record_failure_continues [OF c overflow_quote_raises, of "[quote_record]" StopAsyncIteration]
       a b
  show ?thesis
    by (simp add: quote_record_tick_at no_attribute_def sample_clock_def)
qed

subsection \<open>The symbols of a request\<close>

text \<open>
  C9. The endpoint is meant to reject a request without symbols with HTTP 400, but
  \<^verbatim>\<open>"".split(",")\<close> is the list of one empty string: the empty parameter is not
  rejected, and a session is created for the single symbol \<^verbatim>\<open>""\<close>. For every
  parameter the symbol list has at least one element, so the rejection is never reached.
\<close>

theorem empty_symbols_not_rejected:
  "symbol_list [] = [[]]
   \<and> stream_prices (Some ''db-key'') sample_clock (Subscribed [] StopAsyncIteration) []
     = Inr [Status [[]] 1700000000, Test 1700000001]
   \<and> (\<forall>api_key clk fd symbols.
        stream_prices api_key clk fd symbols =
          Inr (stream_price_data api_key clk fd (symbol_list symbols)))"
  by (simp add: stream_prices_def symbol_list_nonempty)
     (simp add: symbol_list_def strip_def stream_price_data_def sample_clock_def)

subsection \<open>Sizes\<close>

lemma decode_size_nonzero: "decode_size s \<noteq> Some 0"
  by (simp add: decode_size_def split: option.splits)

lemma decode_level_sizes:
  "decode_level lv = Inr pl \<Longrightarrow> pl_bid_size pl \<noteq> Some 0 \<and> pl_ask_size pl \<noteq> Some 0"
  by (auto simp: decode_level_def no_level_def decode_size_nonzero
           split: option.splits list.splits sum.splits)

lemma quote_trade_tick_sizes:
  "quote_trade_tick clk k r = (Inr t, k') \<Longrightarrow> bid_size t \<noteq> Some 0 \<and> ask_size t \<noteq> Some 0"
  by (auto simp: quote_trade_tick_def dest: decode_level_sizes split: prod.splits sum.splits)

lemma process_record_sizes: "list_all nonzero_sizes (fst (process_record clk k r))"
  by (auto simp: process_record_def record_error_event_def dest: quote_trade_tick_sizes
           split: record_kind.splits prod.splits sum.splits)

lemma stream_loop_sizes: "list_all nonzero_sizes (stream_loop clk k rs fin)"
proof (induction rs arbitrary: k)
  case Nil
  show ?case by (cases fin) (simp_all add: iteration_error_event_def)
next
  case (Cons r rs)
  obtain evs k' where p: "process_record clk k r = (evs, k')"
    by (cases "process_record clk k r")
  have "list_all nonzero_sizes evs"
    using process_record_sizes [of clk k r] p by simp
  with Cons.IH [of k'] p show ?case by simp
qed

lemma process_record_tick_sizes:
  "levels r = Some (l # ls) \<Longrightarrow> process_record clk k r = ([Tick t], k') \<Longrightarrow>
   bid_size t = decode_size (bid_sz l) \<and> ask_size t = decode_size (ask_sz l)"
  by (auto simp: process_record_def quote_trade_tick_def decode_level_def record_error_event_def
           split: record_kind.splits prod.splits sum.splits)

text \<open>
  C10. A bid or ask size that is absent or zero decodes to \<open>None\<close>, a size that is not
  zero decodes to itself, the tick of a record with a level carries the two decoded
  sizes, and no tick of any session has the size 0.
\<close>

theorem zero_size_decodes_to_none:
  "decode_size None = None \<and> decode_size (Some 0) = None
   \<and> (\<forall>n. n \<noteq> 0 \<longrightarrow> decode_size (Some n) = Some n)
   \<and> (\<forall>clk k r l ls t k'.
        levels r = Some (l # ls) \<and> process_record clk k r = ([Tick t], k') \<longrightarrow>
        bid_size t = decode_size (bid_sz l) \<and> ask_size t = decode_size (ask_sz l))
   \<and> (\<forall>api_key clk fd symbols.
        list_all nonzero_sizes (stream_price_data api_key clk fd symbols))"
proof (intro conjI allI impI)
  show "decode_size None = None" by (simp add: decode_size_def)
  show "decode_size (Some 0) = None" by (simp add: decode_size_def)
next
  fix n :: int
  assume "n \<noteq> 0"
  then show "decode_size (Some n) = Some n" by (simp add: decode_size_def)
next
  fix clk k r l ls t k'
  assume a: "levels r = Some (l # ls) \<and> process_record clk k r = ([Tick t], k')"
  then show "bid_size t = decode_size (bid_sz l)" using process_record_tick_sizes by blast
  from a show "ask_size t = decode_size (ask_sz l)" using process_record_tick_sizes by blast
next
  fix api_key clk fd symbols
  show "list_all nonzero_sizes (stream_price_data api_key clk fd symbols)"
    by (cases fd)
       (simp_all add: stream_price_data_def key_error_event_def connection_error_event_def
          Let_def stream_loop_sizes)
qed

theorem zero_size_decodes_to_none_witness:
  "decode_size (Some 7) = Some 7
   \<and> levels quote_record = Some [sample_level]
   \<and> bid_sz sample_level = Some 7 \<and> ask_sz sample_level = Some 0
   \<and> process_record sample_clock 0 quote_record =
       ([Tick \<lparr>tick_symbol = SymbolInt 42, tick_timestamp = EventTime 1700000000123456789,
               bid_price = Some 4500.25, ask_price = Some 102.5,
               bid_size = Some 7, ask_size = None,
               received_at = 1700000001, record_type = ''MBP1Msg''\<rparr>], 2)
   \<and> decode_size (bid_sz sample_level) = Some 7 \<and> decode_size (ask_sz sample_level) = None"
proof -
  have n: "(7::int) \<noteq> 0" by simp
  have l: "levels quote_record = Some (sample_level # [])" by (simp add: quote_record_def)
  have p: "process_record sample_clock 0 quote_record =
       ([Tick \<lparr>tick_symbol = SymbolInt 42, tick_timestamp = EventTime 1700000000123456789,
               bid_price = Some 4500.25, ask_price = Some 102.5,
               bid_size = Some 7, ask_size = None,
               received_at = 1700000001, record_type = ''MBP1Msg''\<rparr>], 2)"
    by (simp add: quote_record_tick_at numeral_2_eq_2)
  from zero_size_decodes_to_none n have d: "decode_size (Some 7) = Some 7" by blast
  from zero_size_decodes_to_none l p have
    "bid_size \<lparr>tick_symbol = SymbolInt 42, tick_timestamp = EventTime 1700000000123456789,
               bid_price = Some 4500.25, ask_price = Some 102.5,
               bid_size = Some 7, ask_size = None,
               received_at = 1700000001, record_type = ''MBP1Msg''\<rparr> = decode_size (bid_sz sample_level)
     \<and> ask_size \<lparr>tick_symbol = SymbolInt 42, tick_timestamp = EventTime 1700000000123456789,
               bid_price = Some 4500.25, ask_price = Some 102.5,
               bid_size = Some 7, ask_size = None,
               received_at = 1700000001, record_type = ''MBP1Msg''\<rparr> = decode_size (ask_sz sample_level)"
    by blast
  with d l p show ?thesis by (simp add: sample_level_def)
qed

end
